theory Spec2Isabelle
  imports Complex_Main
begin

section \<open>AgriSure fraud detection: the scoring engine of fraud_detection.py\<close>

text \<open>
  The model follows \<^verbatim>\<open>FraudDetectionEngine\<close> in \<^verbatim>\<open>src/ai-models/fraud_detection.py\<close>.
  In the analyzers a Python float is idealised as a real number, and a score is written
  as the decimal of the source. The aggregation, whose thresholds decide a tier or a flag
  on the last bit of the sum, is also given in binary64 arithmetic (section ``Binary64'').
  Dictionaries with a fixed set of keys are records whose fields are options: \<open>None\<close> is
  a key that is absent (for a key read with \<^verbatim>\<open>.get(key)\<close> and no default, also a key
  whose value is \<^verbatim>\<open>None\<close>). Every exception the scoring path can raise is a value of
  \<open>error\<close>, and a function that can raise returns \<open>error + 'a\<close>.
\<close>

subsection \<open>Data\<close>

datatype error = KeyError | ValueError | TypeError | ZeroDivisionError

text \<open>A point in time, as the number of microseconds since some fixed origin.\<close>

type_synonym datetime = int

text \<open>
  A dictionary entry that holds an ISO date string: the key is absent, the string does
  not parse, it has no UTC offset and parses to a naive datetime (\<open>Iso\<close>), or it has a
  UTC offset and parses to an aware datetime (\<open>IsoAware\<close>, with its instant in UTC).
\<close>

datatype date_field = Absent | Malformed | Iso datetime | IsoAware datetime

text \<open>A parsed \<^verbatim>\<open>datetime\<close> object: naive, or aware of its offset.\<close>

datatype pydatetime = Naive datetime | Aware datetime

record claim_data =
  claim_date :: date_field
  sowing_date :: date_field
  crop_type :: "string option"
  latitude :: "real option"
  longitude :: "real option"
  area_hectares :: "real option"
  damage_type :: "string option"
  claim_amount :: "real option"

record farmer_data =
  farmer_id :: "string option"
  trust_score :: "real option"

record historical_record =
  date :: date_field
  claimed :: "bool option"
  hist_damage_type :: "string option"
  hist_claim_amount :: "real option"
  policy_amount :: "real option"

text \<open>The dictionary a weather provider answers with; the empty dictionary has no key.\<close>

record weather_data =
  rainfall_7days :: "real option"
  min_temp :: "real option"
  hail_detected :: "bool option"

text \<open>
  The helper methods that stand for external services (\<^verbatim>\<open>_estimate_field_area_from_satellite\<close>,
  \<^verbatim>\<open>_check_duplicate_coordinates\<close>, \<^verbatim>\<open>_get_weather_data\<close>, \<^verbatim>\<open>_get_ndvi_data\<close>,
  \<^verbatim>\<open>_analyze_damage_pattern\<close>, \<^verbatim>\<open>_detect_artificial_damage_signs\<close>) and the clock are
  parameters of the model: the source stubs them with random or constant values and the
  test suite replaces them. A numeric answer of \<open>None\<close> is ``unavailable''.
\<close>

record providers =
  estimate_field_area_from_satellite :: "real option \<Rightarrow> real option \<Rightarrow> real option"
  check_duplicate_coordinates :: "real option \<Rightarrow> real option \<Rightarrow> bool"
  get_weather_data :: "real option \<Rightarrow> real option \<Rightarrow> date_field \<Rightarrow> weather_data option"
  get_ndvi_data :: "real option \<Rightarrow> real option \<Rightarrow> date_field \<Rightarrow> nat \<Rightarrow> real option"
  analyze_damage_pattern :: "real option \<Rightarrow> real option \<Rightarrow> date_field \<Rightarrow> string"
  detect_artificial_damage_signs :: "real option \<Rightarrow> real option \<Rightarrow> date_field \<Rightarrow> bool"
  now :: string

record fraud_assessment =
  fraud_score :: real
  risk_level :: string
  fraud_indicators :: "string list"
  requires_field_verification :: bool
  auto_reject :: bool
  timestamp :: string

subsection \<open>Python primitives\<close>

text \<open>\<^verbatim>\<open>datetime.fromisoformat(d[key])\<close>: KeyError for an absent key, ValueError for a bad string.\<close>

fun fromisoformat :: "date_field \<Rightarrow> error + pydatetime" where
  "fromisoformat Absent = Inl KeyError"
| "fromisoformat Malformed = Inl ValueError"
| "fromisoformat (Iso t) = Inr (Naive t)"
| "fromisoformat (IsoAware t) = Inr (Aware t)"

text \<open>
  \<^verbatim>\<open>(a - b).days\<close>: a timedelta is normalised with a non-negative number of seconds and
  microseconds, so its \<^verbatim>\<open>days\<close> is the floor of the difference in days.
\<close>

definition days :: "datetime \<Rightarrow> datetime \<Rightarrow> int" where
  "days a b = (a - b) div 86400000000"

text \<open>
  The subtraction itself: two naive or two aware datetimes give a timedelta; a naive and
  an aware one raise TypeError.
\<close>

fun timedelta_days :: "pydatetime \<Rightarrow> pydatetime \<Rightarrow> error + int" where
  "timedelta_days (Naive a) (Naive b) = Inr (days a b)"
| "timedelta_days (Aware a) (Aware b) = Inr (days a b)"
| "timedelta_days (Naive a) (Aware b) = Inl TypeError"
| "timedelta_days (Aware a) (Naive b) = Inl TypeError"

text \<open>\<^verbatim>\<open>d.get(key, default)\<close>.\<close>

fun get_default :: "'a option \<Rightarrow> 'a \<Rightarrow> 'a" where
  "get_default None d = d"
| "get_default (Some v) d = v"

text \<open>Truthiness of a \<^verbatim>\<open>.get\<close> that yields \<^verbatim>\<open>None\<close> or a bool.\<close>

fun truthy_bool :: "bool option \<Rightarrow> bool" where
  "truthy_bool None = False"
| "truthy_bool (Some b) = b"

text \<open>
  \<^verbatim>\<open>round(x, 2)\<close>: to the nearest multiple of 1/100, a tie to the even one.
\<close>

definition round2 :: "real \<Rightarrow> real" where
  "round2 x =
     (let y = x * 100; f = \<lfloor>y\<rfloor>; d = y - of_int f
      in of_int (if d < 1/2 then f else if 1/2 < d then f + 1
                 else if even f then f else f + 1) / 100)"

subsection \<open>Temporal analyzer\<close>

text \<open>
  The list comprehension of \<^verbatim>\<open>_analyze_temporal_patterns\<close>: for every record in order it
  parses the date and subtracts it from the claim date; the first record whose date is
  absent or malformed, or whose awareness differs from the claim date's, raises.
  \<open>recent_claims cd\<close> is the comprehension for a naive claim date \<open>cd\<close>.
\<close>

fun recent_claims_from ::
  "pydatetime \<Rightarrow> historical_record list \<Rightarrow> error + historical_record list" where
  "recent_claims_from cd [] = Inr []"
| "recent_claims_from cd (h # hs) =
     (case fromisoformat (date h) of
        Inl e \<Rightarrow> Inl e
      | Inr d \<Rightarrow>
         (case timedelta_days cd d of
            Inl e \<Rightarrow> Inl e
          | Inr n \<Rightarrow>
             (case recent_claims_from cd hs of
                Inl e \<Rightarrow> Inl e
              | Inr rs \<Rightarrow> Inr (if n < 90 then h # rs else rs))))"

abbreviation recent_claims ::
  "datetime \<Rightarrow> historical_record list \<Rightarrow> error + historical_record list" where
  "recent_claims cd \<equiv> recent_claims_from (Naive cd)"

definition expected_ranges :: "string \<Rightarrow> (int \<times> int) option" where
  "expected_ranges crop =
     (if crop = ''wheat'' then Some (60, 180)
      else if crop = ''rice'' then Some (90, 150)
      else if crop = ''cotton'' then Some (90, 200)
      else if crop = ''sugarcane'' then Some (180, 365)
      else None)"

definition analyze_temporal_patterns ::
  "farmer_data \<Rightarrow> claim_data \<Rightarrow> historical_record list \<Rightarrow> error + real" where
  "analyze_temporal_patterns farmer claim historical =
     (case fromisoformat (claim_date claim) of
        Inl e \<Rightarrow> Inl e
      | Inr cd \<Rightarrow>
     (case recent_claims_from cd historical of
        Inl e \<Rightarrow> Inl e
      | Inr recent \<Rightarrow>
     (let score = (if length recent > 2 then 0 + 0.3 else 0) in
     (case crop_type claim of
        None \<Rightarrow> Inl KeyError
      | Some crop \<Rightarrow>
     (case fromisoformat (sowing_date claim) of
        Inl e \<Rightarrow> Inl e
      | Inr sd \<Rightarrow>
     (case timedelta_days cd sd of
        Inl e \<Rightarrow> Inl e
      | Inr days_since_sowing \<Rightarrow>
     (let score = (case expected_ranges crop of
                     None \<Rightarrow> score
                   | Some (min_days, max_days) \<Rightarrow>
                       if days_since_sowing < min_days \<or> days_since_sowing > max_days
                       then score + 0.2 else score);
          score = (if crop \<in> set [''wheat'', ''rice''] \<and> days_since_sowing > 120
                   then score + 0.3 else score)
      in Inr (min score 1.0))))))))"

subsection \<open>Geospatial verifier\<close>

text \<open>
  The coordinate test \<^verbatim>\<open>not lat or not lon or abs(lat) > 90 or abs(lon) > 180\<close>, left to
  right: \<^verbatim>\<open>not x\<close> holds for \<^verbatim>\<open>None\<close> and for the number zero.
\<close>

definition coordinates_rejected :: "real option \<Rightarrow> real option \<Rightarrow> bool" where
  "coordinates_rejected lat lon =
     (case lat of
        None \<Rightarrow> True
      | Some la \<Rightarrow>
          la = 0 \<or>
          (case lon of
             None \<Rightarrow> True
           | Some lo \<Rightarrow> lo = 0 \<or> \<bar>la\<bar> > 90 \<or> \<bar>lo\<bar> > 180))"

text \<open>
  The area test \<^verbatim>\<open>estimated_area and abs(estimated_area - reported_area) / reported_area > 0.3\<close>:
  the right operand is evaluated only for an estimate that is neither \<^verbatim>\<open>None\<close> nor zero;
  there a reported area of \<^verbatim>\<open>None\<close> raises TypeError and one of zero raises
  ZeroDivisionError.
\<close>

definition area_mismatch_check :: "real option \<Rightarrow> real option \<Rightarrow> error + bool" where
  "area_mismatch_check estimated_area reported_area =
     (case estimated_area of
        None \<Rightarrow> Inr False
      | Some e \<Rightarrow>
          if e = 0 then Inr False
          else (case reported_area of
                  None \<Rightarrow> Inl TypeError
                | Some a \<Rightarrow>
                    if a = 0 then Inl ZeroDivisionError
                    else Inr (\<bar>e - a\<bar> / a > 0.3)))"

definition verify_geospatial_data :: "providers \<Rightarrow> claim_data \<Rightarrow> error + real" where
  "verify_geospatial_data P claim =
     (let lat = latitude claim;
          lon = longitude claim;
          reported_area = area_hectares claim;
          score = (if coordinates_rejected lat lon then 0 + 0.5 else 0);
          estimated_area = estimate_field_area_from_satellite P lat lon
      in
       (case area_mismatch_check estimated_area reported_area of
          Inl e \<Rightarrow> Inl e
        | Inr mismatch \<Rightarrow>
           (let score = (if mismatch then score + 0.4 else score);
                score = (if check_duplicate_coordinates P lat lon then score + 0.6 else score)
            in Inr (min score 1.0))))"

subsection \<open>Weather consistency checker\<close>

text \<open>
  \<^verbatim>\<open>not weather_data\<close> holds for \<^verbatim>\<open>None\<close> and for the empty dictionary. The dictionary
  \<^verbatim>\<open>inconsistencies\<close> is built before the damage type is looked up; none of its four
  entries can raise.
\<close>

definition empty_weather_data :: "weather_data \<Rightarrow> bool" where
  "empty_weather_data d \<longleftrightarrow>
     rainfall_7days d = None \<and> min_temp d = None \<and> hail_detected d = None"

definition inconsistencies :: "weather_data \<Rightarrow> string \<Rightarrow> bool option" where
  "inconsistencies d dt =
     (if dt = ''drought'' then Some (get_default (rainfall_7days d) 0 > 20)
      else if dt = ''flood'' then Some (get_default (rainfall_7days d) 0 < 50)
      else if dt = ''hail'' then Some (\<not> get_default (hail_detected d) False)
      else if dt = ''frost'' then Some (get_default (min_temp d) 20 > 5)
      else None)"

definition verify_weather_consistency :: "providers \<Rightarrow> claim_data \<Rightarrow> real" where
  "verify_weather_consistency P claim =
     (let lat = latitude claim;
          lon = longitude claim;
          dmg = damage_type claim;
          w = get_weather_data P lat lon (claim_date claim)
      in case w of
           None \<Rightarrow> 0.2
         | Some d \<Rightarrow>
             if empty_weather_data d then 0.2
             else
              (let score = (case dmg of
                              None \<Rightarrow> 0
                            | Some dt \<Rightarrow>
                               if inconsistencies d dt = Some True then 0 + 0.7 else 0)
               in min score 1.0))"

subsection \<open>Satellite pattern analyzer\<close>

text \<open>
  \<^verbatim>\<open>if ndvi_current and ndvi_historical\<close>: the comparison runs only when both readings are
  neither \<^verbatim>\<open>None\<close> nor zero; \<open>ndvi_drop\<close> is \<open>None\<close> when it is skipped.
\<close>

definition ndvi_drop :: "real option \<Rightarrow> real option \<Rightarrow> real option" where
  "ndvi_drop ndvi_current ndvi_historical =
     (case ndvi_current of
        None \<Rightarrow> None
      | Some cur \<Rightarrow>
          if cur = 0 then None
          else (case ndvi_historical of
                  None \<Rightarrow> None
                | Some hist \<Rightarrow> if hist = 0 then None else Some (hist - cur)))"

definition analyze_satellite_images :: "providers \<Rightarrow> claim_data \<Rightarrow> real" where
  "analyze_satellite_images P claim =
     (let lat = latitude claim;
          lon = longitude claim;
          cd = claim_date claim;
          ndvi_current = get_ndvi_data P lat lon cd 0;
          ndvi_historical = get_ndvi_data P lat lon cd 30;
          score = (case ndvi_drop ndvi_current ndvi_historical of
                     None \<Rightarrow> 0
                   | Some dropped \<Rightarrow>
                       if dropped > 0.3
                       then (if analyze_damage_pattern P lat lon cd = ''artificial''
                             then 0 + 0.6 else 0)
                       else 0);
          score = (if detect_artificial_damage_signs P lat lon cd then score + 0.8 else score)
      in min score 1.0)"

subsection \<open>Behavioral pattern analyzer\<close>

definition analyze_farmer_behavior :: "farmer_data \<Rightarrow> historical_record list \<Rightarrow> real" where
  "analyze_farmer_behavior farmer historical =
     (let total_policies = length historical;
          total_claims = length (filter (\<lambda>d. truthy_bool (claimed d)) historical);
          score = (if total_policies > 0
                   then (let claim_ratio = real total_claims / real total_policies
                         in if claim_ratio > 0.7 then 0 + 0.5 else 0)
                   else 0);
          damage_types = map hist_damage_type (filter (\<lambda>d. truthy_bool (claimed d)) historical);
          score = (if length (remdups damage_types) = 1 \<and> length damage_types > 2
                   then score + 0.3 else score);
          large_claims = length (filter (\<lambda>d. get_default (hist_claim_amount d) 0
                                              > get_default (policy_amount d) 0 * 0.8) historical);
          score = (if real large_claims > real total_claims * 0.5 then score + 0.4 else score)
      in min score 1.0)"

subsection \<open>Aggregator and risk classifier\<close>

text \<open>The aggregation with the arithmetic idealised: exact sums, decimal thresholds.\<close>

definition calculate_risk_level :: "real \<Rightarrow> string" where
  "calculate_risk_level s =
     (if s < 0.3 then ''LOW''
      else if s < 0.6 then ''MEDIUM''
      else if s < 0.8 then ''HIGH''
      else ''CRITICAL'')"

definition generate_fraud_indicators :: "real \<Rightarrow> real \<Rightarrow> real \<Rightarrow> real \<Rightarrow> real \<Rightarrow> string list" where
  "generate_fraud_indicators temporal geo weather satellite behavioral =
     (if temporal > 0.5 then [''Suspicious timing pattern detected''] else []) @
     (if geo > 0.5 then [''Geospatial data inconsistency''] else []) @
     (if weather > 0.5 then [''Weather data mismatch with claimed damage''] else []) @
     (if satellite > 0.5 then [''Satellite imagery suggests artificial damage''] else []) @
     (if behavioral > 0.5 then [''Unusual behavioral pattern in claim history''] else [])"

definition detect_claim_fraud ::
  "providers \<Rightarrow> farmer_data \<Rightarrow> claim_data \<Rightarrow> historical_record list \<Rightarrow> error + fraud_assessment" where
  "detect_claim_fraud P farmer claim historical =
     (case analyze_temporal_patterns farmer claim historical of
        Inl e \<Rightarrow> Inl e
      | Inr temporal_score \<Rightarrow>
     (let score = 0 + temporal_score * 0.25 in
     (case verify_geospatial_data P claim of
        Inl e \<Rightarrow> Inl e
      | Inr geo_score \<Rightarrow>
     (let score = score + geo_score * 0.25;
          weather_score = verify_weather_consistency P claim;
          score = score + weather_score * 0.20;
          satellite_score = analyze_satellite_images P claim;
          score = score + satellite_score * 0.20;
          behavioral_score = analyze_farmer_behavior farmer historical;
          score = score + behavioral_score * 0.10
      in Inr \<lparr> fraud_score = round2 score,
               risk_level = calculate_risk_level score,
               fraud_indicators = generate_fraud_indicators temporal_score geo_score
                                    weather_score satellite_score behavioral_score,
               requires_field_verification = (score > 0.6),
               auto_reject = (score > 0.85),
               timestamp = now P \<rparr>))))"

section \<open>Binary64\<close>

subsection \<open>Arithmetic\<close>

text \<open>
  A Python float is an IEEE 754 binary64 number. Here such a number is the real number
  it stands for, and an operation is the exact operation followed by \<open>fl\<close>, the rounding
  to the nearest binary64 number, a tie to the one with an even significand. A literal
  such as \<^verbatim>\<open>0.6\<close> is \<open>fl 0.6\<close>, which is not 6/10. Results below the normal range are
  rounded to the subnormal grid; a result of 2^1024 or more, which Python turns into
  \<^verbatim>\<open>inf\<close>, is not modelled: every number of the aggregation is below 2.
\<close>

definition round_half_even :: "real \<Rightarrow> int" where
  "round_half_even y =
     (let f = \<lfloor>y\<rfloor>; d = y - of_int f
      in if d < 1/2 then f else if 1/2 < d then f + 1 else if even f then f else f + 1)"

text \<open>
  \<open>binade n x\<close> is the exponent \<open>e\<close> with \<open>2^e \<le> x < 2^(e+1)\<close> of a positive \<open>x\<close>, found by
  halving or doubling at most \<open>n\<close> times.
\<close>

fun binade :: "nat \<Rightarrow> real \<Rightarrow> int" where
  "binade 0 x = 0"
| "binade (Suc n) x =
     (if 2 \<le> x then binade n (x / 2) + 1
      else if x < 1 then binade n (x * 2) - 1
      else 0)"

definition scale2 :: "int \<Rightarrow> real \<Rightarrow> real" where
  "scale2 e y = (if 0 \<le> e then y * 2 ^ nat e else y / 2 ^ nat (- e))"

text \<open>
  The significand has 53 bits, so the unit in the last place of \<open>x\<close> is 2 to the binade
  of \<open>x\<close> minus 52; the least normal binade is -1022.
\<close>

definition fl :: "real \<Rightarrow> real" where
  "fl x =
     (if x = 0 then 0
      else (let e = max (binade 1100 \<bar>x\<bar>) (- 1022) - 52
            in scale2 e (of_int (round_half_even (scale2 (- e) x)))))"

definition fadd :: "real \<Rightarrow> real \<Rightarrow> real" where
  "fadd a b = fl (a + b)"

definition fmul :: "real \<Rightarrow> real \<Rightarrow> real" where
  "fmul a b = fl (a * b)"

text \<open>
  \<^verbatim>\<open>round(x, 2)\<close> on a float: the exact value of \<open>x\<close> is rounded to two decimals, a tie to
  the even one, and the result is the binary64 number nearest to that decimal.
\<close>

definition py_round2 :: "real \<Rightarrow> real" where
  "py_round2 x = fl (of_int (round_half_even (x * 100)) / 100)"

subsection \<open>The aggregation of detect_claim_fraud\<close>

text \<open>
  The statements \<^verbatim>\<open>fraud_score = 0.0\<close> and \<^verbatim>\<open>fraud_score += score * weight\<close>, five times:
  the unrounded fraud score, from the five sub-scores the analyzers returned.
\<close>

definition unrounded_fraud_score :: "real \<Rightarrow> real \<Rightarrow> real \<Rightarrow> real \<Rightarrow> real \<Rightarrow> real" where
  "unrounded_fraud_score temporal_score geo_score weather_score satellite_score behavioral_score =
     (let score = 0;
          score = fadd score (fmul temporal_score (fl 0.25));
          score = fadd score (fmul geo_score (fl 0.25));
          score = fadd score (fmul weather_score (fl 0.20));
          score = fadd score (fmul satellite_score (fl 0.20));
          score = fadd score (fmul behavioral_score (fl 0.10))
      in score)"

definition calculate_risk_level_binary64 :: "real \<Rightarrow> string" where
  "calculate_risk_level_binary64 score =
     (if score < fl 0.3 then ''LOW''
      else if score < fl 0.6 then ''MEDIUM''
      else if score < fl 0.8 then ''HIGH''
      else ''CRITICAL'')"

text \<open>
  Lines 50 to 90 of \<^verbatim>\<open>detect_claim_fraud\<close>, after the five analyzers have returned, as a
  function of their five results and of the clock. The indicator threshold 0.5 is a
  binary64 number.
\<close>

definition detect_claim_fraud_binary64 ::
  "string \<Rightarrow> real \<Rightarrow> real \<Rightarrow> real \<Rightarrow> real \<Rightarrow> real \<Rightarrow> fraud_assessment" where
  "detect_claim_fraud_binary64 clock temporal_score geo_score weather_score satellite_score
       behavioral_score =
     (let score = 0;
          score = fadd score (fmul temporal_score (fl 0.25));
          score = fadd score (fmul geo_score (fl 0.25));
          score = fadd score (fmul weather_score (fl 0.20));
          score = fadd score (fmul satellite_score (fl 0.20));
          score = fadd score (fmul behavioral_score (fl 0.10))
      in \<lparr> fraud_score = py_round2 score,
           risk_level = calculate_risk_level_binary64 score,
           fraud_indicators = generate_fraud_indicators temporal_score geo_score
                                weather_score satellite_score behavioral_score,
           requires_field_verification = (score > fl 0.6),
           auto_reject = (score > fl 0.85),
           timestamp = clock \<rparr>)"

subsection \<open>The aggregation of the simplified detector\<close>

text \<open>
  \<^verbatim>\<open>SimpleFraudDetector.detect_fraud\<close> in \<^verbatim>\<open>demo_fraud_detection.py\<close>, after each of its
  analyzers has returned: the same weights and thresholds, the tier chain written out in
  place, and indicator thresholds of its own.
\<close>

record demo_assessment =
  demo_fraud_score :: real
  demo_risk_level :: string
  demo_fraud_indicators :: "string list"
  demo_requires_field_verification :: bool
  demo_auto_reject :: bool

definition detect_fraud_binary64 ::
  "real \<Rightarrow> real \<Rightarrow> real \<Rightarrow> real \<Rightarrow> real \<Rightarrow> demo_assessment" where
  "detect_fraud_binary64 timing_score geo_score weather_score satellite_score behavioral_score =
     (let score = 0;
          ind = (if timing_score > fl 0.3 then [''Suspicious timing pattern detected''] else []);
          score = fadd score (fmul timing_score (fl 0.25));
          ind = (if geo_score > fl 0.4 then ind @ [''Geospatial data inconsistency''] else ind);
          score = fadd score (fmul geo_score (fl 0.25));
          ind = (if weather_score > fl 0.5
                 then ind @ [''Weather data mismatch with claimed damage''] else ind);
          score = fadd score (fmul weather_score (fl 0.20));
          ind = (if satellite_score > fl 0.5
                 then ind @ [''Satellite imagery suggests artificial damage''] else ind);
          score = fadd score (fmul satellite_score (fl 0.20));
          ind = (if behavioral_score > fl 0.4
                 then ind @ [''Unusual behavioral pattern in claim history''] else ind);
          score = fadd score (fmul behavioral_score (fl 0.10));
          level = (if score < fl 0.3 then ''LOW''
                   else if score < fl 0.6 then ''MEDIUM''
                   else if score < fl 0.8 then ''HIGH''
                   else ''CRITICAL'')
      in \<lparr> demo_fraud_score = py_round2 score,
           demo_risk_level = level,
           demo_fraud_indicators = ind,
           demo_requires_field_verification = (score > fl 0.6),
           demo_auto_reject = (score > fl 0.85) \<rparr>)"

section \<open>Sample provider responses\<close>

text \<open>
  Constant providers for concrete runs. The answers of \<open>sample_providers\<close> lie in the
  ranges of the stubs of the source: an area estimate in [0.5, 2.0], an NDVI in [0.2, 0.8],
  a rainfall in [0, 100], a minimum temperature in [-5, 25], no hail, no duplicate, a
  natural damage pattern and no sign of artificial damage.
\<close>

definition sample_estimate :: "real option \<Rightarrow> real option \<Rightarrow> real option" where
  "sample_estimate lat lon = Some 1"

definition no_estimate :: "real option \<Rightarrow> real option \<Rightarrow> real option" where
  "no_estimate lat lon = None"

definition sample_duplicate :: "real option \<Rightarrow> real option \<Rightarrow> bool" where
  "sample_duplicate lat lon = False"

definition sample_weather :: "real option \<Rightarrow> real option \<Rightarrow> date_field \<Rightarrow> weather_data option" where
  "sample_weather lat lon d =
     Some \<lparr> rainfall_7days = Some 60, min_temp = Some 10, hail_detected = Some False \<rparr>"

definition no_weather :: "real option \<Rightarrow> real option \<Rightarrow> date_field \<Rightarrow> weather_data option" where
  "no_weather lat lon d = None"

definition sample_ndvi :: "real option \<Rightarrow> real option \<Rightarrow> date_field \<Rightarrow> nat \<Rightarrow> real option" where
  "sample_ndvi lat lon d days_back = Some 0.5"

text \<open>A field whose vegetation index fell from 0.5 thirty days ago to 0 now.\<close>

definition bare_soil_ndvi :: "real option \<Rightarrow> real option \<Rightarrow> date_field \<Rightarrow> nat \<Rightarrow> real option" where
  "bare_soil_ndvi lat lon d days_back = (if days_back = 0 then Some 0 else Some 0.5)"

definition sample_pattern :: "real option \<Rightarrow> real option \<Rightarrow> date_field \<Rightarrow> string" where
  "sample_pattern lat lon d = ''natural''"

definition artificial_pattern :: "real option \<Rightarrow> real option \<Rightarrow> date_field \<Rightarrow> string" where
  "artificial_pattern lat lon d = ''artificial''"

definition sample_signs :: "real option \<Rightarrow> real option \<Rightarrow> date_field \<Rightarrow> bool" where
  "sample_signs lat lon d = False"

definition artificial_signs :: "real option \<Rightarrow> real option \<Rightarrow> date_field \<Rightarrow> bool" where
  "artificial_signs lat lon d = True"

definition sample_providers :: providers where
  "sample_providers =
     \<lparr> estimate_field_area_from_satellite = sample_estimate,
       check_duplicate_coordinates = sample_duplicate,
       get_weather_data = sample_weather,
       get_ndvi_data = sample_ndvi,
       analyze_damage_pattern = sample_pattern,
       detect_artificial_damage_signs = sample_signs,
       now = ''2024-03-01T10:00:00'' \<rparr>"

text \<open>The providers as the first scenario of the test suite overrides them.\<close>

definition suspicious_providers :: providers where
  "suspicious_providers =
     sample_providers \<lparr> analyze_damage_pattern := artificial_pattern,
                        detect_artificial_damage_signs := artificial_signs \<rparr>"

text \<open>
  Providers that see the vegetation index fall to 0 and classify the damage as artificial,
  but find no sign of cutting or burning; and providers whose weather service is down.
\<close>

definition bare_soil_providers :: providers where
  "bare_soil_providers =
     sample_providers \<lparr> get_ndvi_data := bare_soil_ndvi,
                        analyze_damage_pattern := artificial_pattern \<rparr>"

definition offline_providers :: providers where
  "offline_providers = sample_providers \<lparr> get_weather_data := no_weather \<rparr>"

definition sample_farmer :: farmer_data where
  "sample_farmer = \<lparr> farmer_id = Some ''0x742d35Cc6C8A4935E225b6f8CB0bEf8'', trust_score = Some 650 \<rparr>"

text \<open>Dates of the samples count from the sowing date: one day is 86400000000 microseconds.\<close>

definition day :: "int \<Rightarrow> datetime" where
  "day n = n * 86400000000"

text \<open>
  A wheat claim filed 100 days after sowing, inside the harvest window, whose reported
  area agrees with the sample estimate.
\<close>

definition sample_claim :: claim_data where
  "sample_claim =
     \<lparr> claim_date = Iso (day 100), sowing_date = Iso (day 0), crop_type = Some ''wheat'',
       latitude = Some 28.6139, longitude = Some 77.2090, area_hectares = Some 1,
       damage_type = Some ''pest'', claim_amount = Some 140000 \<rparr>"

text \<open>Three past claims, dated 110, 130 and 160 days after the sowing date of the sample.\<close>

definition sample_history :: "historical_record list" where
  "sample_history =
     [\<lparr> date = Iso (day 110), claimed = Some True, hist_damage_type = Some ''pest'',
         hist_claim_amount = Some 120000, policy_amount = Some 150000 \<rparr>,
      \<lparr> date = Iso (day 130), claimed = Some True, hist_damage_type = Some ''pest'',
         hist_claim_amount = Some 130000, policy_amount = Some 160000 \<rparr>,
      \<lparr> date = Iso (day 160), claimed = Some True, hist_damage_type = Some ''flood'',
         hist_claim_amount = Some 10000, policy_amount = Some 160000 \<rparr>]"

text \<open>A drought claim filed on day 190, after the three past claims, for five hectares.\<close>

definition suspicious_claim :: claim_data where
  "suspicious_claim =
     sample_claim \<lparr> claim_date := Iso (day 190), area_hectares := Some 5,
                    damage_type := Some ''drought'' \<rparr>"

section \<open>Properties\<close>

subsection \<open>Auxiliary facts\<close>

lemmas sample_defs =
  sample_providers_def sample_estimate_def sample_duplicate_def sample_weather_def
  sample_ndvi_def sample_pattern_def sample_signs_def sample_farmer_def day_def days_def
  suspicious_providers_def artificial_pattern_def artificial_signs_def no_estimate_def
  no_weather_def bare_soil_ndvi_def bare_soil_providers_def offline_providers_def
  sample_claim_def sample_history_def suspicious_claim_def

lemmas engine_defs =
  detect_claim_fraud_def analyze_temporal_patterns_def verify_geospatial_data_def
  verify_weather_consistency_def analyze_satellite_images_def analyze_farmer_behavior_def
  calculate_risk_level_def generate_fraud_indicators_def expected_ranges_def
  coordinates_rejected_def area_mismatch_check_def empty_weather_data_def inconsistencies_def
  ndvi_drop_def Let_def

lemma fromisoformat_Naive: "fromisoformat x = Inr (Naive t) \<longleftrightarrow> x = Iso t"
  by (cases x) auto

lemma fromisoformat_Aware: "fromisoformat x = Inr (Aware t) \<longleftrightarrow> x = IsoAware t"
  by (cases x) auto

lemma fromisoformat_Absent: "fromisoformat x = Inr t \<Longrightarrow> x \<noteq> Absent"
  by (cases x) auto

lemma recent_claims_total:
  "(\<forall>x\<in>set hs. \<exists>d. date x = Iso d) \<Longrightarrow> \<exists>rc. recent_claims cd hs = Inr rc"
  by (induction hs) auto

lemma recent_claims_aware_total:
  "(\<forall>x\<in>set hs. \<exists>d. date x = IsoAware d)
     \<Longrightarrow> \<exists>rc. recent_claims_from (Aware cd) hs = Inr rc"
  by (induction hs) auto

lemma round2_bounds:
  assumes "0 \<le> x" "x \<le> 1"
  shows "0 \<le> round2 x \<and> round2 x \<le> 1"
proof -
  have lo: "0 \<le> \<lfloor>x * 100\<rfloor>" using assms by simp
  have hi: "\<lfloor>x * 100\<rfloor> \<le> 100" using assms by (simp add: floor_le_iff)
  show ?thesis
  proof (cases "\<lfloor>x * 100\<rfloor> = 100")
    case True
    then have "x * 100 - of_int \<lfloor>x * 100\<rfloor> \<le> 0" using assms by simp
    then show ?thesis using True by (simp add: round2_def Let_def)
  next
    case False
    then have "\<lfloor>x * 100\<rfloor> + 1 \<le> 100" using hi by linarith
    then show ?thesis using lo by (auto simp: round2_def Let_def)
  qed
qed

text \<open>The temporal score, once both dates have parsed and their subtraction has succeeded.\<close>

lemma temporal_score:
  assumes "fromisoformat (claim_date c) = Inr cd" "recent_claims_from cd h = Inr rc"
    "crop_type c = Some crop" "fromisoformat (sowing_date c) = Inr sd"
    "timedelta_days cd sd = Inr n"
  shows "analyze_temporal_patterns f c h =
     Inr ((if 2 < length rc then 0.3 else 0)
        + (if (crop = ''wheat'' \<and> (n < 60 \<or> 180 < n))
            \<or> (crop = ''rice'' \<and> (n < 90 \<or> 150 < n))
            \<or> (crop = ''cotton'' \<and> (n < 90 \<or> 200 < n))
            \<or> (crop = ''sugarcane'' \<and> (n < 180 \<or> 365 < n))
           then 0.2 else 0)
        + (if (crop = ''wheat'' \<or> crop = ''rice'') \<and> 120 < n then 0.3 else 0))"
  using assms
  by (simp add: analyze_temporal_patterns_def expected_ranges_def Let_def)

lemma temporal_value:
  assumes "claim_date c = Iso cd" "sowing_date c = Iso sd" "crop_type c = Some crop"
    "recent_claims cd h = Inr rc"
  shows "analyze_temporal_patterns f c h =
     Inr ((if 2 < length rc then 0.3 else 0)
        + (if (crop = ''wheat'' \<and> (days cd sd < 60 \<or> 180 < days cd sd))
            \<or> (crop = ''rice'' \<and> (days cd sd < 90 \<or> 150 < days cd sd))
            \<or> (crop = ''cotton'' \<and> (days cd sd < 90 \<or> 200 < days cd sd))
            \<or> (crop = ''sugarcane'' \<and> (days cd sd < 180 \<or> 365 < days cd sd))
           then 0.2 else 0)
        + (if (crop = ''wheat'' \<or> crop = ''rice'') \<and> 120 < days cd sd then 0.3 else 0))"
  using temporal_score[of c "Naive cd" h rc crop "Naive sd" "days cd sd" f] assms by simp

lemma temporal_Inr:
  assumes "analyze_temporal_patterns f c h = Inr s"
  shows "\<exists>cd sd crop rc n. fromisoformat (claim_date c) = Inr cd
     \<and> recent_claims_from cd h = Inr rc \<and> crop_type c = Some crop
     \<and> fromisoformat (sowing_date c) = Inr sd \<and> timedelta_days cd sd = Inr n"
  using assms
  by (auto simp: analyze_temporal_patterns_def Let_def split: sum.splits option.splits)

lemma temporal_bounds:
  assumes "analyze_temporal_patterns f c h = Inr s"
  shows "0 \<le> s \<and> s \<le> 1"
proof -
  from temporal_Inr[OF assms] obtain cd sd crop rc n where
    *: "fromisoformat (claim_date c) = Inr cd" "recent_claims_from cd h = Inr rc"
       "crop_type c = Some crop" "fromisoformat (sowing_date c) = Inr sd"
       "timedelta_days cd sd = Inr n"
    by blast
  show ?thesis using temporal_score[OF *, of f] assms by (auto split: if_splits)
qed

lemma geo_bounds:
  assumes "verify_geospatial_data P c = Inr s"
  shows "0 \<le> s \<and> s \<le> 1"
  using assms
  by (auto simp: verify_geospatial_data_def Let_def split: sum.splits if_splits)

lemma weather_bounds:
  "0 \<le> verify_weather_consistency P c \<and> verify_weather_consistency P c \<le> 1"
  by (auto simp: verify_weather_consistency_def Let_def split: option.splits)

lemma satellite_bounds:
  "0 \<le> analyze_satellite_images P c \<and> analyze_satellite_images P c \<le> 1"
  by (auto simp: analyze_satellite_images_def Let_def split: option.splits)

lemma behavior_bounds:
  "0 \<le> analyze_farmer_behavior f h \<and> analyze_farmer_behavior f h \<le> 1"
  by (auto simp: analyze_farmer_behavior_def Let_def)

text \<open>The assessment in terms of the five sub-scores, and what a returned assessment implies.\<close>

lemma detect_claim_fraud_value:
  assumes "analyze_temporal_patterns f c h = Inr t" "verify_geospatial_data P c = Inr g"
  shows "detect_claim_fraud P f c h =
     (let w = verify_weather_consistency P c;
          s = analyze_satellite_images P c;
          b = analyze_farmer_behavior f h;
          raw = 0.25 * t + 0.25 * g + 0.20 * w + 0.20 * s + 0.10 * b
      in Inr \<lparr> fraud_score = round2 raw,
               risk_level = calculate_risk_level raw,
               fraud_indicators = generate_fraud_indicators t g w s b,
               requires_field_verification = (0.6 < raw),
               auto_reject = (0.85 < raw),
               timestamp = now P \<rparr>)"
  using assms by (simp add: detect_claim_fraud_def Let_def algebra_simps)

lemma detect_claim_fraud_Inr:
  assumes "detect_claim_fraud P f c h = Inr r"
  shows "\<exists>t g. analyze_temporal_patterns f c h = Inr t \<and> verify_geospatial_data P c = Inr g"
  using assms by (auto simp: detect_claim_fraud_def Let_def split: sum.splits)

text \<open>Evaluation of binary64 roundings, and the literals that serve as thresholds.\<close>

lemma binade_numeral [simp]:
  "binade (numeral k) x =
     (if 2 \<le> x then binade (pred_numeral k) (x / 2) + 1
      else if x < 1 then binade (pred_numeral k) (x * 2) - 1
      else 0)"
  by (simp add: numeral_eq_Suc)

lemmas f64_eval =
  fl_def fadd_def fmul_def py_round2_def scale2_def round_half_even_def Let_def

lemma fl_thresholds:
  "fl 0.3 = 5404319552844595 / 18014398509481984"
  "fl 0.6 = 5404319552844595 / 9007199254740992"
  "fl 0.8 = 3602879701896397 / 4503599627370496"
  "fl 0.85 = 7656119366529843 / 9007199254740992"
  by (simp_all add: f64_eval)

lemma round_half_even_near: "\<bar>y - of_int (round_half_even y)\<bar> \<le> 1 / 2"
  unfolding round_half_even_def Let_def by (auto; linarith)

lemma detect_claim_fraud_binary64_score:
  "detect_claim_fraud_binary64 clock t g w s b =
     \<lparr> fraud_score = py_round2 (unrounded_fraud_score t g w s b),
       risk_level = calculate_risk_level_binary64 (unrounded_fraud_score t g w s b),
       fraud_indicators = generate_fraud_indicators t g w s b,
       requires_field_verification = (fl 0.6 < unrounded_fraud_score t g w s b),
       auto_reject = (fl 0.85 < unrounded_fraud_score t g w s b),
       timestamp = clock \<rparr>"
  by (simp add: detect_claim_fraud_binary64_def unrounded_fraud_score_def Let_def)

lemma detect_fraud_binary64_score:
  "demo_fraud_score (detect_fraud_binary64 t g w s b) = py_round2 (unrounded_fraud_score t g w s b)"
  "demo_risk_level (detect_fraud_binary64 t g w s b) =
     calculate_risk_level_binary64 (unrounded_fraud_score t g w s b)"
  "demo_requires_field_verification (detect_fraud_binary64 t g w s b)
     \<longleftrightarrow> fl 0.6 < unrounded_fraud_score t g w s b"
  "demo_auto_reject (detect_fraud_binary64 t g w s b)
     \<longleftrightarrow> fl 0.85 < unrounded_fraud_score t g w s b"
  by (simp_all add: detect_fraud_binary64_def unrounded_fraud_score_def
      calculate_risk_level_binary64_def Let_def)

subsection \<open>Score ranges\<close>

text \<open>
  C1. Whenever an analyzer returns, its score lies in [0,1]: the temporal and the
  geospatial analyzers can raise, the weather, satellite and behavioral analyzers always
  return. Whenever the engine returns an assessment, the five sub-scores exist, their
  weighted sum 0.25 * temporal + 0.25 * geospatial + 0.20 * weather + 0.20 * satellite +
  0.10 * behavioral lies in [0,1], and so does the reported score, which is that sum
  rounded to two decimals.
\<close>

theorem scores_in_unit_interval:
  "(\<forall>t. analyze_temporal_patterns f c h = Inr t \<longrightarrow> 0 \<le> t \<and> t \<le> 1) \<and>
   (\<forall>g. verify_geospatial_data P c = Inr g \<longrightarrow> 0 \<le> g \<and> g \<le> 1) \<and>
   (0 \<le> verify_weather_consistency P c \<and> verify_weather_consistency P c \<le> 1) \<and>
   (0 \<le> analyze_satellite_images P c \<and> analyze_satellite_images P c \<le> 1) \<and>
   (0 \<le> analyze_farmer_behavior f h \<and> analyze_farmer_behavior f h \<le> 1) \<and>
   (\<forall>r. detect_claim_fraud P f c h = Inr r \<longrightarrow>
      (\<exists>t g. analyze_temporal_patterns f c h = Inr t \<and> verify_geospatial_data P c = Inr g \<and>
         (let raw = 0.25 * t + 0.25 * g + 0.20 * verify_weather_consistency P c
                    + 0.20 * analyze_satellite_images P c + 0.10 * analyze_farmer_behavior f h
          in 0 \<le> raw \<and> raw \<le> 1 \<and> fraud_score r = round2 raw \<and>
             0 \<le> fraud_score r \<and> fraud_score r \<le> 1)))"
proof -
  have agg: "\<exists>t g. analyze_temporal_patterns f c h = Inr t \<and> verify_geospatial_data P c = Inr g \<and>
         (let raw = 0.25 * t + 0.25 * g + 0.20 * verify_weather_consistency P c
                    + 0.20 * analyze_satellite_images P c + 0.10 * analyze_farmer_behavior f h
          in 0 \<le> raw \<and> raw \<le> 1 \<and> fraud_score r = round2 raw \<and>
             0 \<le> fraud_score r \<and> fraud_score r \<le> 1)"
    if ret: "detect_claim_fraud P f c h = Inr r" for r
  proof -
    from detect_claim_fraud_Inr[OF ret] obtain t g where
      t: "analyze_temporal_patterns f c h = Inr t" and g: "verify_geospatial_data P c = Inr g"
      by blast
    define raw where "raw = 0.25 * t + 0.25 * g + 0.20 * verify_weather_consistency P c
                    + 0.20 * analyze_satellite_images P c + 0.10 * analyze_farmer_behavior f h"
    have lo: "0 \<le> raw"
      using temporal_bounds[OF t] geo_bounds[OF g] weather_bounds[of P c]
        satellite_bounds[of P c] behavior_bounds[of f h]
      unfolding raw_def by simp
    have hi: "raw \<le> 1"
      using temporal_bounds[OF t] geo_bounds[OF g] weather_bounds[of P c]
        satellite_bounds[of P c] behavior_bounds[of f h]
      unfolding raw_def by simp
    have fs: "fraud_score r = round2 raw"
      using detect_claim_fraud_value[OF t g] ret unfolding raw_def by (auto simp: Let_def)
    have "0 \<le> fraud_score r \<and> fraud_score r \<le> 1"
      using round2_bounds[OF lo hi] fs by simp
    with t g lo hi fs show ?thesis unfolding raw_def Let_def by blast
  qed
  show ?thesis
    using temporal_bounds[of f c h] geo_bounds[of P c] weather_bounds[of P c]
      satellite_bounds[of P c] behavior_bounds[of f h] agg
    by blast
qed

theorem scores_in_unit_interval_witness:
  "\<exists>r. detect_claim_fraud suspicious_providers sample_farmer suspicious_claim sample_history = Inr r
     \<and> 0 \<le> fraud_score r \<and> fraud_score r \<le> 1
     \<and> analyze_temporal_patterns sample_farmer suspicious_claim sample_history = Inr 0.8
     \<and> verify_geospatial_data suspicious_providers suspicious_claim = Inr 0.4"
proof -
  have t: "analyze_temporal_patterns sample_farmer suspicious_claim sample_history = Inr 0.8"
    by (simp add: engine_defs sample_defs)
  have g: "verify_geospatial_data suspicious_providers suspicious_claim = Inr 0.4"
    by (simp add: engine_defs sample_defs)
  obtain r where
    r: "detect_claim_fraud suspicious_providers sample_farmer suspicious_claim sample_history = Inr r"
    using detect_claim_fraud_value[OF t g] by (simp add: Let_def)
  from scores_in_unit_interval[of sample_farmer suspicious_claim sample_history suspicious_providers] r
  have "0 \<le> fraud_score r \<and> fraud_score r \<le> 1"
    by (auto simp: Let_def)
  with r t g show ?thesis by blast
qed

subsection \<open>Risk tiers and flags\<close>

text \<open>
  C2. The risk level is a step function of the score it is given: LOW below 0.3, MEDIUM on
  [0.3, 0.6), HIGH on [0.6, 0.8), CRITICAL from 0.8 on, so the values 0.3, 0.6 and 0.8 fall
  into the higher tier. In binary64 the same holds with the three thresholds read as the
  floats 0.3, 0.6 and 0.8, and both the engine and the simplified detector apply the step
  function to the unrounded fraud score, the float that the five additions leave.
\<close>

theorem risk_level_step_function:
  "(calculate_risk_level x = ''LOW'' \<longleftrightarrow> x < 0.3) \<and>
   (calculate_risk_level x = ''MEDIUM'' \<longleftrightarrow> 0.3 \<le> x \<and> x < 0.6) \<and>
   (calculate_risk_level x = ''HIGH'' \<longleftrightarrow> 0.6 \<le> x \<and> x < 0.8) \<and>
   (calculate_risk_level x = ''CRITICAL'' \<longleftrightarrow> 0.8 \<le> x) \<and>
   calculate_risk_level 0.3 = ''MEDIUM'' \<and>
   calculate_risk_level 0.6 = ''HIGH'' \<and>
   calculate_risk_level 0.8 = ''CRITICAL'' \<and>
   (calculate_risk_level_binary64 y = ''LOW'' \<longleftrightarrow> y < fl 0.3) \<and>
   (calculate_risk_level_binary64 y = ''MEDIUM'' \<longleftrightarrow> fl 0.3 \<le> y \<and> y < fl 0.6) \<and>
   (calculate_risk_level_binary64 y = ''HIGH'' \<longleftrightarrow> fl 0.6 \<le> y \<and> y < fl 0.8) \<and>
   (calculate_risk_level_binary64 y = ''CRITICAL'' \<longleftrightarrow> fl 0.8 \<le> y) \<and>
   calculate_risk_level_binary64 (fl 0.3) = ''MEDIUM'' \<and>
   calculate_risk_level_binary64 (fl 0.6) = ''HIGH'' \<and>
   calculate_risk_level_binary64 (fl 0.8) = ''CRITICAL'' \<and>
   risk_level (detect_claim_fraud_binary64 clock t g w s b) =
     calculate_risk_level_binary64 (unrounded_fraud_score t g w s b) \<and>
   demo_risk_level (detect_fraud_binary64 t g w s b) =
     calculate_risk_level_binary64 (unrounded_fraud_score t g w s b)"
proof -
  have tiers:
    "(calculate_risk_level x = ''LOW'' \<longleftrightarrow> x < 0.3) \<and>
     (calculate_risk_level x = ''MEDIUM'' \<longleftrightarrow> 0.3 \<le> x \<and> x < 0.6) \<and>
     (calculate_risk_level x = ''HIGH'' \<longleftrightarrow> 0.6 \<le> x \<and> x < 0.8) \<and>
     (calculate_risk_level x = ''CRITICAL'' \<longleftrightarrow> 0.8 \<le> x)"
    by (auto simp: calculate_risk_level_def)
  have bounds:
    "calculate_risk_level 0.3 = ''MEDIUM'' \<and> calculate_risk_level 0.6 = ''HIGH'' \<and>
     calculate_risk_level 0.8 = ''CRITICAL''"
    by (simp add: calculate_risk_level_def)
  have order: "fl 0.3 < fl 0.6" "fl 0.6 < fl 0.8"
    unfolding fl_thresholds by simp_all
  have tiers64:
    "(calculate_risk_level_binary64 y = ''LOW'' \<longleftrightarrow> y < fl 0.3) \<and>
     (calculate_risk_level_binary64 y = ''MEDIUM'' \<longleftrightarrow> fl 0.3 \<le> y \<and> y < fl 0.6) \<and>
     (calculate_risk_level_binary64 y = ''HIGH'' \<longleftrightarrow> fl 0.6 \<le> y \<and> y < fl 0.8) \<and>
     (calculate_risk_level_binary64 y = ''CRITICAL'' \<longleftrightarrow> fl 0.8 \<le> y)"
    using order by (auto simp: calculate_risk_level_binary64_def)
  have bounds64:
    "calculate_risk_level_binary64 (fl 0.3) = ''MEDIUM'' \<and>
     calculate_risk_level_binary64 (fl 0.6) = ''HIGH'' \<and>
     calculate_risk_level_binary64 (fl 0.8) = ''CRITICAL''"
    using order by (simp add: calculate_risk_level_binary64_def)
  have engine: "risk_level (detect_claim_fraud_binary64 clock t g w s b) =
     calculate_risk_level_binary64 (unrounded_fraud_score t g w s b)"
    by (simp add: detect_claim_fraud_binary64_score)
  have demo: "demo_risk_level (detect_fraud_binary64 t g w s b) =
     calculate_risk_level_binary64 (unrounded_fraud_score t g w s b)"
    by (simp add: detect_fraud_binary64_score)
  from tiers bounds tiers64 bounds64 engine demo show ?thesis by blast
qed

text \<open>
  The sub-scores 0.8, 1.0, 0.7, 0.6 and 0.9: their exact weighted sum is 0.8, the five float
  additions leave 0.7999999999999999, which is below the float 0.8, and the tier is HIGH.
\<close>

theorem risk_level_step_function_witness:
  "unrounded_fraud_score (fl 0.8) (fl 1) (fl 0.7) (fl 0.6) (fl 0.9)
     = 7205759403792793 / 9007199254740992 \<and>
   unrounded_fraud_score (fl 0.8) (fl 1) (fl 0.7) (fl 0.6) (fl 0.9) < fl 0.8 \<and>
   risk_level (detect_claim_fraud_binary64 ''2024-03-01T10:00:00''
     (fl 0.8) (fl 1) (fl 0.7) (fl 0.6) (fl 0.9)) = ''HIGH'' \<and>
   demo_risk_level (detect_fraud_binary64 (fl 0.8) (fl 1) (fl 0.7) (fl 0.6) (fl 0.9)) = ''HIGH''"
proof -
  have u: "unrounded_fraud_score (fl 0.8) (fl 1) (fl 0.7) (fl 0.6) (fl 0.9)
     = 7205759403792793 / 9007199254740992"
    by (simp add: unrounded_fraud_score_def f64_eval)
  have "(7205759403792793 / 9007199254740992 :: real) < fl 0.8"
    and "fl 0.6 \<le> (7205759403792793 / 9007199254740992 :: real)"
    unfolding fl_thresholds by simp_all
  with u have lt: "unrounded_fraud_score (fl 0.8) (fl 1) (fl 0.7) (fl 0.6) (fl 0.9) < fl 0.8"
    and ge: "fl 0.6 \<le> unrounded_fraud_score (fl 0.8) (fl 1) (fl 0.7) (fl 0.6) (fl 0.9)"
    by simp_all
  note step = risk_level_step_function[of 0
      "unrounded_fraud_score (fl 0.8) (fl 1) (fl 0.7) (fl 0.6) (fl 0.9)"
      "''2024-03-01T10:00:00''" "fl 0.8" "fl 1" "fl 0.7" "fl 0.6" "fl 0.9"]
  from step lt ge have
    "risk_level (detect_claim_fraud_binary64 ''2024-03-01T10:00:00''
       (fl 0.8) (fl 1) (fl 0.7) (fl 0.6) (fl 0.9)) = ''HIGH''"
    "demo_risk_level (detect_fraud_binary64 (fl 0.8) (fl 1) (fl 0.7) (fl 0.6) (fl 0.9)) = ''HIGH''"
    by simp_all
  with u lt show ?thesis by blast
qed

text \<open>
  C3. In every assessment, of the engine and of the simplified detector, field
  verification is required exactly when the unrounded fraud score exceeds the float 0.6,
  the claim is rejected automatically exactly when it exceeds the float 0.85, and
  automatic rejection implies field verification. Only the reported score is rounded:
  it is the float nearest to a multiple of 1/100 that lies within 1/200 of the unrounded
  score.
\<close>

theorem flags_from_unrounded_score:
  "(requires_field_verification (detect_claim_fraud_binary64 clock t g w s b)
      \<longleftrightarrow> fl 0.6 < unrounded_fraud_score t g w s b) \<and>
   (auto_reject (detect_claim_fraud_binary64 clock t g w s b)
      \<longleftrightarrow> fl 0.85 < unrounded_fraud_score t g w s b) \<and>
   (auto_reject (detect_claim_fraud_binary64 clock t g w s b)
      \<longrightarrow> requires_field_verification (detect_claim_fraud_binary64 clock t g w s b)) \<and>
   fraud_score (detect_claim_fraud_binary64 clock t g w s b)
      = py_round2 (unrounded_fraud_score t g w s b) \<and>
   (demo_requires_field_verification (detect_fraud_binary64 t g w s b)
      \<longleftrightarrow> fl 0.6 < unrounded_fraud_score t g w s b) \<and>
   (demo_auto_reject (detect_fraud_binary64 t g w s b)
      \<longleftrightarrow> fl 0.85 < unrounded_fraud_score t g w s b) \<and>
   (demo_auto_reject (detect_fraud_binary64 t g w s b)
      \<longrightarrow> demo_requires_field_verification (detect_fraud_binary64 t g w s b)) \<and>
   demo_fraud_score (detect_fraud_binary64 t g w s b)
      = py_round2 (unrounded_fraud_score t g w s b) \<and>
   (\<exists>k. py_round2 x = fl (of_int k / 100) \<and> \<bar>x * 100 - of_int k\<bar> \<le> 1 / 2)"
proof -
  have order: "fl 0.6 < fl 0.85"
    unfolding fl_thresholds by simp
  have engine:
    "(requires_field_verification (detect_claim_fraud_binary64 clock t g w s b)
        \<longleftrightarrow> fl 0.6 < unrounded_fraud_score t g w s b) \<and>
     (auto_reject (detect_claim_fraud_binary64 clock t g w s b)
        \<longleftrightarrow> fl 0.85 < unrounded_fraud_score t g w s b) \<and>
     fraud_score (detect_claim_fraud_binary64 clock t g w s b)
        = py_round2 (unrounded_fraud_score t g w s b)"
    by (simp add: detect_claim_fraud_binary64_score)
  have demo:
    "(demo_requires_field_verification (detect_fraud_binary64 t g w s b)
        \<longleftrightarrow> fl 0.6 < unrounded_fraud_score t g w s b) \<and>
     (demo_auto_reject (detect_fraud_binary64 t g w s b)
        \<longleftrightarrow> fl 0.85 < unrounded_fraud_score t g w s b) \<and>
     demo_fraud_score (detect_fraud_binary64 t g w s b)
        = py_round2 (unrounded_fraud_score t g w s b)"
    by (simp add: detect_fraud_binary64_score)
  have rounding: "\<exists>k. py_round2 x = fl (of_int k / 100) \<and> \<bar>x * 100 - of_int k\<bar> \<le> 1 / 2"
    using round_half_even_near[of "x * 100"] unfolding py_round2_def by blast
  from engine demo order rounding show ?thesis by auto
qed

text \<open>
  The sub-scores 0.8, 0.4, 0.7, 0.8 and 0: their exact weighted sum is 0.6, the float
  additions leave 0.6000000000000001, so field verification is required although the
  reported score, the float 0.6, does not exceed the threshold.
\<close>

theorem flags_from_unrounded_score_witness:
  "unrounded_fraud_score (fl 0.8) (fl 0.4) (fl 0.7) (fl 0.8) 0
     = 1351079888211149 / 2251799813685248 \<and>
   requires_field_verification (detect_claim_fraud_binary64 ''2024-03-01T10:00:00''
     (fl 0.8) (fl 0.4) (fl 0.7) (fl 0.8) 0) \<and>
   \<not> auto_reject (detect_claim_fraud_binary64 ''2024-03-01T10:00:00''
     (fl 0.8) (fl 0.4) (fl 0.7) (fl 0.8) 0) \<and>
   fraud_score (detect_claim_fraud_binary64 ''2024-03-01T10:00:00''
     (fl 0.8) (fl 0.4) (fl 0.7) (fl 0.8) 0) = fl 0.6 \<and>
   demo_requires_field_verification (detect_fraud_binary64 (fl 0.8) (fl 0.4) (fl 0.7) (fl 0.8) 0) \<and>
   \<not> demo_auto_reject (detect_fraud_binary64 (fl 0.8) (fl 0.4) (fl 0.7) (fl 0.8) 0) \<and>
   demo_fraud_score (detect_fraud_binary64 (fl 0.8) (fl 0.4) (fl 0.7) (fl 0.8) 0) = fl 0.6"
proof -
  have u: "unrounded_fraud_score (fl 0.8) (fl 0.4) (fl 0.7) (fl 0.8) 0
     = 1351079888211149 / 2251799813685248"
    by (simp add: unrounded_fraud_score_def f64_eval)
  have "fl 0.6 < (1351079888211149 / 2251799813685248 :: real)"
    and "\<not> fl 0.85 < (1351079888211149 / 2251799813685248 :: real)"
    unfolding fl_thresholds by simp_all
  with u have gt: "fl 0.6 < unrounded_fraud_score (fl 0.8) (fl 0.4) (fl 0.7) (fl 0.8) 0"
    and le: "\<not> fl 0.85 < unrounded_fraud_score (fl 0.8) (fl 0.4) (fl 0.7) (fl 0.8) 0"
    by simp_all
  have r: "py_round2 (unrounded_fraud_score (fl 0.8) (fl 0.4) (fl 0.7) (fl 0.8) 0) = fl 0.6"
    unfolding u by (simp add: f64_eval)
  note flags = flags_from_unrounded_score[of "''2024-03-01T10:00:00''"
      "fl 0.8" "fl 0.4" "fl 0.7" "fl 0.8" 0 0]
  from flags gt le r u show ?thesis by simp
qed

subsection \<open>Input validation\<close>

lemma geo_total:
  assumes "area_hectares c = Some a" "a \<noteq> 0"
  shows "\<exists>g. verify_geospatial_data P c = Inr g"
  using assms
  by (simp add: verify_geospatial_data_def area_mismatch_check_def Let_def split: option.splits)

lemma detect_claim_fraud_error:
  assumes "analyze_temporal_patterns f c h = Inl e"
  shows "detect_claim_fraud P f c h = Inl e"
  using assms by (simp add: detect_claim_fraud_def)

text \<open>
  C4, as the claim states it, fails: a claim with a negative area, and a claim dated 30
  days before its sowing date, are both scored like any other claim.
\<close>

theorem malformed_input_is_scored:
  "detect_claim_fraud sample_providers sample_farmer
       (sample_claim \<lparr> area_hectares := Some (- 5) \<rparr>) [] =
     Inr \<lparr> fraud_score = 0, risk_level = ''LOW'', fraud_indicators = [],
           requires_field_verification = False, auto_reject = False,
           timestamp = ''2024-03-01T10:00:00'' \<rparr> \<and>
   days (day 100) (day 130) = - 30 \<and>
   detect_claim_fraud sample_providers sample_farmer
       (sample_claim \<lparr> sowing_date := Iso (day 130) \<rparr>) [] =
     Inr \<lparr> fraud_score = 0.05, risk_level = ''LOW'', fraud_indicators = [],
           requires_field_verification = False, auto_reject = False,
           timestamp = ''2024-03-01T10:00:00'' \<rparr>"
  by (simp add: engine_defs sample_defs round2_def)

text \<open>
  C4, amended. The engine has no validation step and no validation error. A claim without
  a claim date raises KeyError; so does one without a crop type or a sowing date, once the
  claim date and the dates of the history have parsed; in every case a missing claim
  date, sowing date or crop type ends the assessment with an exception and without a score.
  Nothing is required of the farmer profile, of the sign of the area or of the order of
  the dates: when the crop type is present, the reported area is present and not zero, and
  the claim date, the sowing date and the date of every historical record parse and are
  either all without a UTC offset or all with one, an assessment is produced, whatever the
  providers answer. A claim date without an offset together with a sowing date or a first
  historical record with one, or the reverse, raises TypeError.
\<close>

theorem no_validation_step:
  "(claim_date c = Absent \<longrightarrow> detect_claim_fraud P f c h = Inl KeyError) \<and>
   (\<forall>cd rc. fromisoformat (claim_date c) = Inr cd \<and> recent_claims_from cd h = Inr rc \<and>
        (crop_type c = None \<or> sowing_date c = Absent)
      \<longrightarrow> detect_claim_fraud P f c h = Inl KeyError) \<and>
   (claim_date c = Absent \<or> sowing_date c = Absent \<or> crop_type c = None
      \<longrightarrow> (\<exists>e. detect_claim_fraud P f c h = Inl e)) \<and>
   (\<forall>cd sd crop a. claim_date c = Iso cd \<and> sowing_date c = Iso sd \<and> crop_type c = Some crop \<and>
        (\<forall>x\<in>set h. \<exists>d. date x = Iso d) \<and> area_hectares c = Some a \<and> a \<noteq> 0
      \<longrightarrow> (\<exists>r. detect_claim_fraud P f c h = Inr r)) \<and>
   (\<forall>cd sd crop a. claim_date c = IsoAware cd \<and> sowing_date c = IsoAware sd \<and>
        crop_type c = Some crop \<and>
        (\<forall>x\<in>set h. \<exists>d. date x = IsoAware d) \<and> area_hectares c = Some a \<and> a \<noteq> 0
      \<longrightarrow> (\<exists>r. detect_claim_fraud P f c h = Inr r)) \<and>
   (\<forall>cd sd rc crop. claim_date c = Iso cd \<and> sowing_date c = IsoAware sd \<and>
        recent_claims_from (Naive cd) h = Inr rc \<and> crop_type c = Some crop
      \<longrightarrow> detect_claim_fraud P f c h = Inl TypeError) \<and>
   (\<forall>cd sd rc crop. claim_date c = IsoAware cd \<and> sowing_date c = Iso sd \<and>
        recent_claims_from (Aware cd) h = Inr rc \<and> crop_type c = Some crop
      \<longrightarrow> detect_claim_fraud P f c h = Inl TypeError) \<and>
   (\<forall>cd d x hs. h = x # hs \<and>
        (claim_date c = Iso cd \<and> date x = IsoAware d \<or>
         claim_date c = IsoAware cd \<and> date x = Iso d)
      \<longrightarrow> detect_claim_fraud P f c h = Inl TypeError)"
proof -
  have no_date: "detect_claim_fraud P f c h = Inl KeyError" if "claim_date c = Absent"
    using that by (simp add: detect_claim_fraud_def analyze_temporal_patterns_def)
  have no_crop: "detect_claim_fraud P f c h = Inl KeyError"
    if "fromisoformat (claim_date c) = Inr cd" "recent_claims_from cd h = Inr rc"
       "crop_type c = None \<or> sowing_date c = Absent" for cd rc
    using that
    by (auto simp: detect_claim_fraud_def analyze_temporal_patterns_def Let_def
        split: option.splits)
  have missing: "\<exists>e. detect_claim_fraud P f c h = Inl e"
    if m: "claim_date c = Absent \<or> sowing_date c = Absent \<or> crop_type c = None"
  proof (cases "analyze_temporal_patterns f c h")
    case (Inl e)
    then show ?thesis using detect_claim_fraud_error by blast
  next
    case (Inr t)
    from temporal_Inr[OF Inr] m show ?thesis by (auto dest: fromisoformat_Absent)
  qed
  have total: "\<exists>r. detect_claim_fraud P f c h = Inr r"
    if "claim_date c = Iso cd" "sowing_date c = Iso sd" "crop_type c = Some crop"
       "\<forall>x\<in>set h. \<exists>d. date x = Iso d" "area_hectares c = Some a" "a \<noteq> 0" for cd sd crop a
  proof -
    from recent_claims_total[OF that(4)] obtain rc where rc: "recent_claims cd h = Inr rc"
      by blast
    from temporal_value[OF that(1-3) rc] obtain t where
      t: "analyze_temporal_patterns f c h = Inr t" by blast
    from geo_total[OF that(5,6)] obtain g where g: "verify_geospatial_data P c = Inr g"
      by blast
    from detect_claim_fraud_value[OF t g] show ?thesis by (simp add: Let_def)
  qed
  have total_aware: "\<exists>r. detect_claim_fraud P f c h = Inr r"
    if "claim_date c = IsoAware cd" "sowing_date c = IsoAware sd" "crop_type c = Some crop"
       "\<forall>x\<in>set h. \<exists>d. date x = IsoAware d" "area_hectares c = Some a" "a \<noteq> 0"
    for cd sd crop a
  proof -
    from recent_claims_aware_total[OF that(4)] obtain rc where
      rc: "recent_claims_from (Aware cd) h = Inr rc"
      by blast
    from temporal_score[of c "Aware cd" h rc crop "Aware sd" "days cd sd" f] that(1-3) rc
    obtain t where t: "analyze_temporal_patterns f c h = Inr t" by auto
    from geo_total[OF that(5,6)] obtain g where g: "verify_geospatial_data P c = Inr g"
      by blast
    from detect_claim_fraud_value[OF t g] show ?thesis by (simp add: Let_def)
  qed
  have mixed_sowing: "detect_claim_fraud P f c h = Inl TypeError"
    if "claim_date c = Iso cd" "sowing_date c = IsoAware sd"
       "recent_claims_from (Naive cd) h = Inr rc" "crop_type c = Some crop" for cd sd rc crop
    using that by (simp add: detect_claim_fraud_def analyze_temporal_patterns_def Let_def)
  have mixed_sowing': "detect_claim_fraud P f c h = Inl TypeError"
    if "claim_date c = IsoAware cd" "sowing_date c = Iso sd"
       "recent_claims_from (Aware cd) h = Inr rc" "crop_type c = Some crop" for cd sd rc crop
    using that by (simp add: detect_claim_fraud_def analyze_temporal_patterns_def Let_def)
  have mixed_history: "detect_claim_fraud P f c h = Inl TypeError"
    if "h = x # hs"
       "claim_date c = Iso cd \<and> date x = IsoAware d \<or> claim_date c = IsoAware cd \<and> date x = Iso d"
    for cd d x hs
    using that by (auto simp: detect_claim_fraud_def analyze_temporal_patterns_def)
  show ?thesis
  proof (intro conjI allI impI)
    show "detect_claim_fraud P f c h = Inl KeyError" if "claim_date c = Absent"
      using that by (rule no_date)
    show "detect_claim_fraud P f c h = Inl KeyError"
      if "fromisoformat (claim_date c) = Inr cd \<and> recent_claims_from cd h = Inr rc \<and>
          (crop_type c = None \<or> sowing_date c = Absent)" for cd rc
      using that no_crop by blast
    show "\<exists>e. detect_claim_fraud P f c h = Inl e"
      if "claim_date c = Absent \<or> sowing_date c = Absent \<or> crop_type c = None"
      using that by (rule missing)
    show "\<exists>r. detect_claim_fraud P f c h = Inr r"
      if "claim_date c = Iso cd \<and> sowing_date c = Iso sd \<and> crop_type c = Some crop \<and>
          (\<forall>x\<in>set h. \<exists>d. date x = Iso d) \<and> area_hectares c = Some a \<and> a \<noteq> 0"
      for cd sd crop a
      using that total by blast
    show "\<exists>r. detect_claim_fraud P f c h = Inr r"
      if "claim_date c = IsoAware cd \<and> sowing_date c = IsoAware sd \<and>
          crop_type c = Some crop \<and>
          (\<forall>x\<in>set h. \<exists>d. date x = IsoAware d) \<and> area_hectares c = Some a \<and> a \<noteq> 0"
      for cd sd crop a
      using that total_aware by blast
    show "detect_claim_fraud P f c h = Inl TypeError"
      if "claim_date c = Iso cd \<and> sowing_date c = IsoAware sd \<and>
          recent_claims_from (Naive cd) h = Inr rc \<and> crop_type c = Some crop"
      for cd sd rc crop
      using that mixed_sowing by blast
    show "detect_claim_fraud P f c h = Inl TypeError"
      if "claim_date c = IsoAware cd \<and> sowing_date c = Iso sd \<and>
          recent_claims_from (Aware cd) h = Inr rc \<and> crop_type c = Some crop"
      for cd sd rc crop
      using that mixed_sowing' by blast
    show "detect_claim_fraud P f c h = Inl TypeError"
      if "h = x # hs \<and>
          (claim_date c = Iso cd \<and> date x = IsoAware d \<or>
           claim_date c = IsoAware cd \<and> date x = Iso d)"
      for cd d x hs
      using that mixed_history by blast
  qed
qed

theorem no_validation_step_witness:
  "detect_claim_fraud sample_providers sample_farmer
       (sample_claim \<lparr> claim_date := Absent \<rparr>) sample_history = Inl KeyError \<and>
   detect_claim_fraud sample_providers sample_farmer
       (sample_claim \<lparr> crop_type := None \<rparr>) [] = Inl KeyError \<and>
   (\<exists>r. detect_claim_fraud suspicious_providers sample_farmer
       (suspicious_claim \<lparr> sowing_date := Iso (day 200), area_hectares := Some (- 5) \<rparr>)
       sample_history = Inr r) \<and>
   (\<exists>r. detect_claim_fraud sample_providers sample_farmer
       (sample_claim \<lparr> claim_date := IsoAware (day 100), sowing_date := IsoAware (day 0) \<rparr>)
       [] = Inr r) \<and>
   detect_claim_fraud sample_providers sample_farmer
       (sample_claim \<lparr> sowing_date := IsoAware (day 0) \<rparr>) [] = Inl TypeError \<and>
   detect_claim_fraud sample_providers sample_farmer
       (sample_claim \<lparr> claim_date := IsoAware (day 100) \<rparr>) sample_history = Inl TypeError"
proof -
  have a: "detect_claim_fraud sample_providers sample_farmer
       (sample_claim \<lparr> claim_date := Absent \<rparr>) sample_history = Inl KeyError"
    using no_validation_step[of "sample_claim \<lparr> claim_date := Absent \<rparr>" sample_providers
        sample_farmer sample_history]
    by simp
  have b: "detect_claim_fraud sample_providers sample_farmer
       (sample_claim \<lparr> crop_type := None \<rparr>) [] = Inl KeyError"
    using no_validation_step[of "sample_claim \<lparr> crop_type := None \<rparr>" sample_providers
        sample_farmer "[]"]
    by (simp add: sample_claim_def)
  have "\<forall>x\<in>set sample_history. \<exists>d. date x = Iso d"
    by (simp add: sample_history_def)
  then have c: "\<exists>r. detect_claim_fraud suspicious_providers sample_farmer
       (suspicious_claim \<lparr> sowing_date := Iso (day 200), area_hectares := Some (- 5) \<rparr>)
       sample_history = Inr r"
    using no_validation_step[of
        "suspicious_claim \<lparr> sowing_date := Iso (day 200), area_hectares := Some (- 5) \<rparr>"
        suspicious_providers sample_farmer sample_history]
    by (simp add: suspicious_claim_def sample_claim_def)
  have d: "\<exists>r. detect_claim_fraud sample_providers sample_farmer
       (sample_claim \<lparr> claim_date := IsoAware (day 100), sowing_date := IsoAware (day 0) \<rparr>)
       [] = Inr r"
    using no_validation_step[of
        "sample_claim \<lparr> claim_date := IsoAware (day 100), sowing_date := IsoAware (day 0) \<rparr>"
        sample_providers sample_farmer "[]"]
    by (simp add: sample_claim_def)
  have e: "detect_claim_fraud sample_providers sample_farmer
       (sample_claim \<lparr> sowing_date := IsoAware (day 0) \<rparr>) [] = Inl TypeError"
    using no_validation_step[of "sample_claim \<lparr> sowing_date := IsoAware (day 0) \<rparr>"
        sample_providers sample_farmer "[]"]
    by (simp add: sample_claim_def)
  have g: "detect_claim_fraud sample_providers sample_farmer
       (sample_claim \<lparr> claim_date := IsoAware (day 100) \<rparr>) sample_history = Inl TypeError"
    using no_validation_step[of "sample_claim \<lparr> claim_date := IsoAware (day 100) \<rparr>"
        sample_providers sample_farmer sample_history]
    by (simp add: sample_claim_def sample_history_def)
  from a b c d e g show ?thesis by blast
qed

subsection \<open>Geospatial verifier\<close>

text \<open>
  C5. A claim on the equator, or on the prime meridian, with coordinates in range: the
  verifier adds the 0.5 coordinate penalty, because zero is falsy in the test
  \<^verbatim>\<open>not lat or not lon\<close>; the same claim at latitude 28.6139 and longitude 77.2090 scores 0.
\<close>

theorem zero_coordinate_is_penalised:
  "verify_geospatial_data sample_providers (sample_claim \<lparr> latitude := Some 0 \<rparr>) = Inr 0.5 \<and>
   verify_geospatial_data sample_providers (sample_claim \<lparr> longitude := Some 0 \<rparr>) = Inr 0.5 \<and>
   verify_geospatial_data sample_providers sample_claim = Inr 0"
  by (simp add: engine_defs sample_defs)

text \<open>
  C6. A claim whose reported area is 0, with an area estimate available: the division by
  the reported area is evaluated and raises ZeroDivisionError, in the verifier and so in
  the whole assessment; with no estimate the check is skipped and the score is 0.
\<close>

theorem zero_area_divides_by_zero:
  "verify_geospatial_data sample_providers (sample_claim \<lparr> area_hectares := Some 0 \<rparr>)
     = Inl ZeroDivisionError \<and>
   detect_claim_fraud sample_providers sample_farmer
     (sample_claim \<lparr> area_hectares := Some 0 \<rparr>) [] = Inl ZeroDivisionError \<and>
   verify_geospatial_data (sample_providers \<lparr> estimate_field_area_from_satellite := no_estimate \<rparr>)
     (sample_claim \<lparr> area_hectares := Some 0 \<rparr>) = Inr 0"
  by (simp add: engine_defs sample_defs)

subsection \<open>Temporal analyzer\<close>

text \<open>
  C7, as the claim states it, fails at the upper bound of a window: a cotton claim on day
  200 and a wheat claim on day 180 get no out-of-window penalty (the wheat claim scores
  only the 0.3 of the near-harvest rule).
\<close>

theorem upper_bound_is_inside_window:
  "days (day 200) (day 0) = 200 \<and>
   analyze_temporal_patterns sample_farmer
     (sample_claim \<lparr> claim_date := Iso (day 200), crop_type := Some ''cotton'' \<rparr>) [] = Inr 0 \<and>
   days (day 180) (day 0) = 180 \<and>
   analyze_temporal_patterns sample_farmer
     (sample_claim \<lparr> claim_date := Iso (day 180) \<rparr>) [] = Inr 0.3"
  by (simp add: engine_defs sample_defs)

text \<open>
  C7, amended. With the windows 60/180 for wheat, 90/150 for rice, 90/200 for cotton and
  180/365 for sugarcane, both bounds inclusive, the temporal analyzer adds its 0.2
  out-of-window penalty if and only if the crop is in the table and the number of days
  since sowing is below the lower or above the upper bound; other crops never receive it;
  for wheat or rice more than 120 days after sowing the 0.3 near-harvest penalty is added
  on top. The score is the sum of these two and of the 0.3 for more than two recent
  records.
\<close>

theorem temporal_window_penalty:
  assumes "claim_date c = Iso cd" "sowing_date c = Iso sd" "crop_type c = Some crop"
    "recent_claims cd h = Inr rc"
  shows "analyze_temporal_patterns f c h =
     Inr ((if 2 < length rc then 0.3 else 0)
        + (if (crop = ''wheat'' \<and> (days cd sd < 60 \<or> 180 < days cd sd))
            \<or> (crop = ''rice'' \<and> (days cd sd < 90 \<or> 150 < days cd sd))
            \<or> (crop = ''cotton'' \<and> (days cd sd < 90 \<or> 200 < days cd sd))
            \<or> (crop = ''sugarcane'' \<and> (days cd sd < 180 \<or> 365 < days cd sd))
           then 0.2 else 0)
        + (if (crop = ''wheat'' \<or> crop = ''rice'') \<and> 120 < days cd sd then 0.3 else 0))"
  using assms by (rule temporal_value)

theorem temporal_window_penalty_witness:
  "analyze_temporal_patterns sample_farmer
     (sample_claim \<lparr> claim_date := Iso (day 181) \<rparr>) [] = Inr 0.5 \<and>
   analyze_temporal_patterns sample_farmer
     (sample_claim \<lparr> claim_date := Iso (day 59), crop_type := Some ''maize'' \<rparr>) [] = Inr 0"
proof -
  have a: "analyze_temporal_patterns sample_farmer
     (sample_claim \<lparr> claim_date := Iso (day 181) \<rparr>) [] = Inr 0.5"
    using temporal_window_penalty[of "sample_claim \<lparr> claim_date := Iso (day 181) \<rparr>"
        "day 181" "day 0" "''wheat''" "[]" "[]" sample_farmer]
    by (simp add: sample_claim_def day_def days_def)
  have b: "analyze_temporal_patterns sample_farmer
     (sample_claim \<lparr> claim_date := Iso (day 59), crop_type := Some ''maize'' \<rparr>) [] = Inr 0"
    using temporal_window_penalty[of
        "sample_claim \<lparr> claim_date := Iso (day 59), crop_type := Some ''maize'' \<rparr>"
        "day 59" "day 0" "''maize''" "[]" "[]" sample_farmer]
    by (simp add: sample_claim_def day_def days_def)
  from a b show ?thesis by blast
qed

text \<open>
  C8. Three historical records dated 10, 30 and 60 days after the claim date: all three
  are counted as recent and the 0.3 penalty is added; with an empty history the same claim
  scores 0.
\<close>

theorem later_records_are_counted:
  "recent_claims (day 100) sample_history = Inr sample_history \<and>
   analyze_temporal_patterns sample_farmer sample_claim sample_history = Inr 0.3 \<and>
   analyze_temporal_patterns sample_farmer sample_claim [] = Inr 0"
  by (simp add: engine_defs sample_defs)

subsection \<open>Weather and satellite analyzers\<close>

text \<open>
  C9. The weather checker never raises. Its score is 0.2 when the provider has no data
  (\<^verbatim>\<open>None\<close> or an empty dictionary); otherwise it is 0.7 when the damage type of the claim
  is drought and the 7-day rainfall exceeds 20, or flood and the rainfall is below 50, or
  hail and no hail was detected, or frost and the minimum temperature exceeds 5 (a reading
  the provider left out counts as rainfall 0, minimum temperature 20, no hail), and 0 in
  every other case, so at most one penalty of 0.7 is added.
\<close>

theorem weather_score_cases:
  "(get_weather_data P (latitude c) (longitude c) (claim_date c) = None
      \<longrightarrow> verify_weather_consistency P c = 0.2) \<and>
   (\<forall>d. get_weather_data P (latitude c) (longitude c) (claim_date c) = Some d \<longrightarrow>
      verify_weather_consistency P c =
        (if rainfall_7days d = None \<and> min_temp d = None \<and> hail_detected d = None then 0.2
         else if (damage_type c = Some ''drought'' \<and> get_default (rainfall_7days d) 0 > 20) \<or>
                 (damage_type c = Some ''flood'' \<and> get_default (rainfall_7days d) 0 < 50) \<or>
                 (damage_type c = Some ''hail'' \<and> \<not> get_default (hail_detected d) False) \<or>
                 (damage_type c = Some ''frost'' \<and> get_default (min_temp d) 20 > 5)
         then 0.7 else 0))"
  by (auto simp: verify_weather_consistency_def empty_weather_data_def inconsistencies_def Let_def
      split: option.splits)

theorem weather_score_cases_witness:
  "verify_weather_consistency offline_providers sample_claim = 0.2 \<and>
   verify_weather_consistency sample_providers suspicious_claim = 0.7 \<and>
   verify_weather_consistency sample_providers
     (sample_claim \<lparr> damage_type := Some ''flood'' \<rparr>) = 0"
proof -
  have a: "verify_weather_consistency offline_providers sample_claim = 0.2"
    using weather_score_cases[of offline_providers sample_claim]
    by (simp add: offline_providers_def sample_providers_def no_weather_def)
  have b: "verify_weather_consistency sample_providers suspicious_claim = 0.7"
    using weather_score_cases[of sample_providers suspicious_claim]
    by (simp add: sample_providers_def sample_weather_def suspicious_claim_def sample_claim_def)
  have c: "verify_weather_consistency sample_providers
     (sample_claim \<lparr> damage_type := Some ''flood'' \<rparr>) = 0"
    using weather_score_cases[of sample_providers "sample_claim \<lparr> damage_type := Some ''flood'' \<rparr>"]
    by (simp add: sample_providers_def sample_weather_def sample_claim_def)
  from a b c show ?thesis by blast
qed

text \<open>
  C10. When the NDVI provider answers exactly 0 for the current or for the 30-day-prior
  reading, the drop comparison is skipped: the satellite score is 0.8 if the
  artificial-damage-signs detector fires and 0 otherwise, whatever the other reading and
  the damage-pattern classifier say.
\<close>

theorem zero_ndvi_skips_drop_check:
  assumes "get_ndvi_data P (latitude c) (longitude c) (claim_date c) 0 = Some 0 \<or>
           get_ndvi_data P (latitude c) (longitude c) (claim_date c) 30 = Some 0"
  shows "analyze_satellite_images P c =
     (if detect_artificial_damage_signs P (latitude c) (longitude c) (claim_date c)
      then 0.8 else 0)"
  using assms
  by (auto simp: analyze_satellite_images_def ndvi_drop_def Let_def split: option.splits)

theorem zero_ndvi_skips_drop_check_witness:
  "get_ndvi_data bare_soil_providers (latitude sample_claim) (longitude sample_claim)
     (claim_date sample_claim) 30 = Some 0.5 \<and>
   get_ndvi_data bare_soil_providers (latitude sample_claim) (longitude sample_claim)
     (claim_date sample_claim) 0 = Some 0 \<and>
   analyze_damage_pattern bare_soil_providers (latitude sample_claim) (longitude sample_claim)
     (claim_date sample_claim) = ''artificial'' \<and>
   analyze_satellite_images bare_soil_providers sample_claim = 0"
proof -
  have cur: "get_ndvi_data bare_soil_providers (latitude sample_claim) (longitude sample_claim)
     (claim_date sample_claim) 0 = Some 0"
    by (simp add: bare_soil_providers_def sample_providers_def bare_soil_ndvi_def)
  have prior: "get_ndvi_data bare_soil_providers (latitude sample_claim) (longitude sample_claim)
     (claim_date sample_claim) 30 = Some 0.5"
    by (simp add: bare_soil_providers_def sample_providers_def bare_soil_ndvi_def)
  have pat: "analyze_damage_pattern bare_soil_providers (latitude sample_claim)
     (longitude sample_claim) (claim_date sample_claim) = ''artificial''"
    by (simp add: bare_soil_providers_def sample_providers_def artificial_pattern_def)
  have "analyze_satellite_images bare_soil_providers sample_claim = 0"
    using zero_ndvi_skips_drop_check[of bare_soil_providers sample_claim] cur
    by (simp add: bare_soil_providers_def sample_providers_def sample_signs_def)
  with cur prior pat show ?thesis by blast
qed

end
